theory Spec2Isabelle
  imports Complex_Main
begin

section \<open>Numbers, decimals and strings\<close>

text \<open>
  JavaScript numbers that carry money amounts, rates and minor units are modelled as exact
  rationals: the arithmetic of the handlers (\<open>*\<close>, \<open>-\<close>, \<open>/\<close>, \<open>>\<close>, \<open>!==\<close>) is read over
  \<^typ>\<open>rat\<close>. Timestamps are the integers that \<open>Date\<close> comparison compares.
\<close>

type_synonym uuid = string
type_synonym json = string
type_synonym timestamp = int


text \<open>
  Rounding half away from zero. This is the rounding the specification names for the
  currency conversion, and the rounding a \<open>DECIMAL(p,s)\<close> column of the schema applies
  to a value written into it.
\<close>

definition round_half_away_from_zero :: "rat \<Rightarrow> rat" where
  "round_half_away_from_zero x =
     (if 0 \<le> x then of_int \<lfloor>x + 1 / 2\<rfloor> else - of_int \<lfloor>- x + 1 / 2\<rfloor>)"

definition numeric_scale :: "nat \<Rightarrow> rat \<Rightarrow> rat" where
  "numeric_scale s x = round_half_away_from_zero (x * 10 ^ s) / 10 ^ s"

abbreviation decimal_10_2 :: "rat \<Rightarrow> rat" where
  "decimal_10_2 \<equiv> numeric_scale 2"

abbreviation decimal_5_4 :: "rat \<Rightarrow> rat" where
  "decimal_5_4 \<equiv> numeric_scale 4"





text \<open>A header, an environment variable or a field that JavaScript tests with \<open>!x\<close>.\<close>

definition falsy :: "string option \<Rightarrow> bool" where
  "falsy x = (x = None \<or> x = Some [])"

section \<open>Currency minor units (src/unnamed/part_000)\<close>








section \<open>Data model (src/database/schema.sql)\<close>

text \<open>
  Every table is the list of its rows. Columns that no modelled decision reads (names,
  titles, descriptions, images, display order, timestamps, \<open>updated_by\<close>) and the surrogate
  key \<open>votes.id\<close>, which the store generates, are left out. JSON columns are association
  lists from keys to serialised values. A \<open>DECIMAL(p,s)\<close> column rounds what is written
  into it to its scale; its precision bound and the range of \<open>INTEGER\<close> are not
  modelled, and neither are the row level security policies: the routes reach the store
  through one server-side client.
\<close>

datatype event_status = Draft | Active | Ended

datatype payment_status = Pending | Completed | Failed | Refunded

datatype payment_method = Stripe | Paystack

text \<open>The cast of a text literal to the enum type \<open>payment_status\<close>, and its printing.\<close>

definition payment_status_of_text :: "string \<Rightarrow> payment_status option" where
  "payment_status_of_text s =
     (if s = ''pending'' then Some Pending
      else if s = ''completed'' then Some Completed
      else if s = ''failed'' then Some Failed
      else if s = ''refunded'' then Some Refunded
      else None)"

fun payment_status_text :: "payment_status \<Rightarrow> string" where
  "payment_status_text Pending = ''pending''"
| "payment_status_text Completed = ''completed''"
| "payment_status_text Failed = ''failed''"
| "payment_status_text Refunded = ''refunded''"

record event_row =
  ev_id :: uuid
  ev_organizer_id :: uuid
  ev_vote_price :: rat
  ev_start_date :: timestamp
  ev_end_date :: timestamp
  ev_status :: event_status
  ev_total_votes :: int
  ev_total_revenue :: rat

record category_row =
  cat_id :: uuid
  cat_event_id :: uuid

record contestant_row =
  con_id :: uuid
  con_category_id :: uuid
  con_vote_count :: int

record vote_row =
  vote_voter_id :: uuid
  vote_contestant_id :: uuid
  vote_event_id :: uuid
  vote_payment_id :: uuid
  vote_amount :: rat

record payment_row =
  pay_id :: uuid
  pay_voter_id :: uuid
  pay_event_id :: uuid
  pay_contestant_id :: uuid
  pay_amount :: rat
  pay_platform_fee :: rat
  pay_organizer_earnings :: rat
  pay_method :: payment_method
  pay_provider_id :: "string option"
  pay_intent_id :: "string option"
  pay_status :: payment_status
  pay_metadata :: "(string \<times> json) list"

record settings_row =
  commission_rate :: rat
  stripe_enabled :: bool
  paystack_enabled :: bool

record withdrawal_row =
  wd_id :: uuid
  wd_organizer_id :: uuid
  wd_amount :: rat
  wd_status :: string
  wd_payment_details :: "(string \<times> json) list"

record database =
  users :: "uuid list"
  events :: "event_row list"
  categories :: "category_row list"
  contestants :: "contestant_row list"
  votes :: "vote_row list"
  payments :: "payment_row list"
  platform_settings :: "settings_row list"
  withdrawals :: "withdrawal_row list"

section \<open>The storage collaborator\<close>

datatype db_error = UniqueViolation | ForeignKeyViolation | InvalidEnumValue string

text \<open>\<open>.single()\<close>: the row when the query returns exactly one, an error otherwise.\<close>

definition single :: "'a list \<Rightarrow> 'a option" where
  "single rows = (case rows of [r] \<Rightarrow> Some r | _ \<Rightarrow> None)"

text \<open>A result that the caller awaits without reading its error.\<close>

definition ignore_error :: "db_error + database \<Rightarrow> database \<Rightarrow> database" where
  "ignore_error result db = (case result of Inl e \<Rightarrow> db | Inr db' \<Rightarrow> db')"

text \<open>Setting a key of a JSON object: \<open>{...obj, key: value}\<close>.\<close>

fun json_set :: "string \<Rightarrow> json \<Rightarrow> (string \<times> json) list \<Rightarrow> (string \<times> json) list" where
  "json_set k v [] = [(k, v)]"
| "json_set k v ((k', v') # kvs) =
     (if k = k' then (k, v) # kvs else (k', v') # json_set k v kvs)"

text \<open>
  \<open>INSERT INTO payments\<close>: the primary key and the three foreign keys are checked; the
  \<open>DECIMAL(10,2)\<close> columns store the value rounded to their scale.
\<close>

definition insert_payment :: "payment_row \<Rightarrow> database \<Rightarrow> db_error + database" where
  "insert_payment row db =
     (if list_ex (\<lambda>p. pay_id p = pay_id row) (payments db) then Inl UniqueViolation
      else if \<not> (pay_voter_id row \<in> set (users db)
                  \<and> list_ex (\<lambda>e. ev_id e = pay_event_id row) (events db)
                  \<and> list_ex (\<lambda>c. con_id c = pay_contestant_id row) (contestants db))
        then Inl ForeignKeyViolation
      else Inr (db\<lparr>payments := payments db @
                 [row\<lparr>pay_amount := decimal_10_2 (pay_amount row),
                      pay_platform_fee := decimal_10_2 (pay_platform_fee row),
                      pay_organizer_earnings := decimal_10_2 (pay_organizer_earnings row)\<rparr>]\<rparr>))"

text \<open>
  \<open>UPDATE payments SET ... WHERE ...\<close>: the columns an update object may name. A status is
  sent as text and cast to the enum; a literal outside the enum fails the statement.
\<close>

record payment_patch =
  set_status :: "string option"
  set_provider_id :: "string option"
  set_intent_id :: "string option"
  set_metadata :: "(string \<times> json) list option"

definition patch_row :: "payment_patch \<Rightarrow> payment_status option \<Rightarrow> payment_row \<Rightarrow> payment_row" where
  "patch_row patch st p =
     p\<lparr>pay_status := (case st of None \<Rightarrow> pay_status p | Some s \<Rightarrow> s),
       pay_provider_id :=
         (case set_provider_id patch of None \<Rightarrow> pay_provider_id p | Some v \<Rightarrow> Some v),
       pay_intent_id :=
         (case set_intent_id patch of None \<Rightarrow> pay_intent_id p | Some v \<Rightarrow> Some v),
       pay_metadata := (case set_metadata patch of None \<Rightarrow> pay_metadata p | Some m \<Rightarrow> m)\<rparr>"

definition update_payments ::
  "payment_patch \<Rightarrow> (payment_row \<Rightarrow> bool) \<Rightarrow> database \<Rightarrow> db_error + database" where
  "update_payments patch sel db =
     (case set_status patch of
        None \<Rightarrow>
          Inr (db\<lparr>payments := map (\<lambda>p. if sel p then patch_row patch None p else p) (payments db)\<rparr>)
      | Some s \<Rightarrow>
          (case payment_status_of_text s of
             None \<Rightarrow> Inl (InvalidEnumValue s)
           | Some st \<Rightarrow>
               Inr (db\<lparr>payments :=
                     map (\<lambda>p. if sel p then patch_row patch (Some st) p else p) (payments db)\<rparr>)))"

text \<open>
  The trigger \<open>update_vote_counts_trigger\<close>, \<open>AFTER INSERT ON votes FOR EACH ROW\<close>: it runs
  in the transaction of the insert.
\<close>

definition update_vote_counts :: "vote_row \<Rightarrow> database \<Rightarrow> database" where
  "update_vote_counts new db =
     db\<lparr>contestants :=
          map (\<lambda>c. if con_id c = vote_contestant_id new
                    then c\<lparr>con_vote_count := con_vote_count c + 1\<rparr> else c) (contestants db),
        events :=
          map (\<lambda>e. if ev_id e = vote_event_id new
                    then e\<lparr>ev_total_votes := ev_total_votes e + 1,
                           ev_total_revenue := decimal_10_2 (ev_total_revenue e + vote_amount new)\<rparr>
                    else e) (events db)\<rparr>"

text \<open>
  \<open>INSERT INTO votes\<close>: \<open>payment_id UUID UNIQUE NOT NULL\<close>, the composite
  \<open>UNIQUE(voter_id, contestant_id, payment_id)\<close> and the three foreign keys are checked, the
  row is stored and the trigger fires; a refused insert changes nothing.
\<close>

definition insert_vote :: "vote_row \<Rightarrow> database \<Rightarrow> db_error + database" where
  "insert_vote row db =
     (if list_ex (\<lambda>v. vote_payment_id v = vote_payment_id row) (votes db)
         \<or> list_ex (\<lambda>v. vote_voter_id v = vote_voter_id row
                        \<and> vote_contestant_id v = vote_contestant_id row
                        \<and> vote_payment_id v = vote_payment_id row) (votes db)
        then Inl UniqueViolation
      else if \<not> (vote_voter_id row \<in> set (users db)
                  \<and> list_ex (\<lambda>c. con_id c = vote_contestant_id row) (contestants db)
                  \<and> list_ex (\<lambda>e. ev_id e = vote_event_id row) (events db))
        then Inl ForeignKeyViolation
      else (let new = row\<lparr>vote_amount := decimal_10_2 (vote_amount row)\<rparr>
            in Inr (update_vote_counts new (db\<lparr>votes := votes db @ [new]\<rparr>))))"

definition insert_withdrawal :: "withdrawal_row \<Rightarrow> database \<Rightarrow> db_error + database" where
  "insert_withdrawal row db =
     (if list_ex (\<lambda>w. wd_id w = wd_id row) (withdrawals db) then Inl UniqueViolation
      else if wd_organizer_id row \<notin> set (users db) then Inl ForeignKeyViolation
      else Inr (db\<lparr>withdrawals := withdrawals db @
                 [row\<lparr>wd_amount := decimal_10_2 (wd_amount row)\<rparr>]\<rparr>))"

definition update_withdrawals ::
  "(withdrawal_row \<Rightarrow> withdrawal_row) \<Rightarrow> (withdrawal_row \<Rightarrow> bool) \<Rightarrow> database \<Rightarrow> database" where
  "update_withdrawals upd sel db =
     db\<lparr>withdrawals := map (\<lambda>w. if sel w then upd w else w) (withdrawals db)\<rparr>"

text \<open>
  The embedded select \<open>contestants(id, category:categories(event:events(...)))\<close> with
  \<open>.single()\<close>. A contestant whose category or event does not resolve makes the handler
  read a property of \<open>null\<close>, which its \<open>catch\<close> answers with status 500.
\<close>

datatype contestant_lookup =
  ContestantNotFound | EventMissing | ContestantFound contestant_row event_row

definition select_contestant_with_event :: "uuid \<Rightarrow> database \<Rightarrow> contestant_lookup" where
  "select_contestant_with_event contestant_id db =
     (case single (filter (\<lambda>c. con_id c = contestant_id) (contestants db)) of
        None \<Rightarrow> ContestantNotFound
      | Some c \<Rightarrow>
          (case single (filter (\<lambda>g. cat_id g = con_category_id c) (categories db)) of
             None \<Rightarrow> EventMissing
           | Some g \<Rightarrow>
               (case single (filter (\<lambda>e. ev_id e = cat_event_id g) (events db)) of
                  None \<Rightarrow> EventMissing
                | Some e \<Rightarrow> ContestantFound c e)))"

section \<open>Replies\<close>

text \<open>The JSON replies of the routes, with the status code each is sent with.\<close>

datatype reply =
    ValidationErrors
  | Error_json nat string
  | InvalidVoteAmount rat rat
  | InsufficientBalance rat rat
  | IntentCreated uuid string
  | PaystackInitialized uuid string string string
  | PaymentVerified uuid string bool
  | Message_json nat string
  | Received
  | VoteCast vote_row
  | WithdrawalSubmitted withdrawal_row
  | SettingsUpdated settings_row

fun status_code :: "reply \<Rightarrow> nat" where
  "status_code ValidationErrors = 400"
| "status_code (Error_json code msg) = code"
| "status_code (InvalidVoteAmount expected received) = 400"
| "status_code (InsufficientBalance available requested) = 400"
| "status_code (IntentCreated payment_id client_secret) = 200"
| "status_code (PaystackInitialized payment_id url access_code reference) = 200"
| "status_code (PaymentVerified payment_id status verified) = 200"
| "status_code (Message_json code msg) = code"
| "status_code Received = 200"
| "status_code (VoteCast vote) = 201"
| "status_code (WithdrawalSubmitted withdrawal) = 201"
| "status_code (SettingsUpdated settings) = 200"

section \<open>Payment creation (src/unnamed/part_001)\<close>

text \<open>
  The commission computation of both creation routes:
  \<open>const platformFee = amount * settings.commission_rate;
   const organizerEarnings = amount - platformFee;\<close>
\<close>

definition platformFee :: "rat \<Rightarrow> rat \<Rightarrow> rat" where
  "platformFee amount rate = amount * rate"

definition organizerEarnings :: "rat \<Rightarrow> rat \<Rightarrow> rat" where
  "organizerEarnings amount rate = amount - platformFee amount rate"

record payment_request =
  req_contestant_id :: uuid
  req_amount :: rat
  req_currency :: "string option"
  req_mobile_money_network :: "string option"

definition supported_currencies :: "string list" where
  "supported_currencies =
     [''usd'', ''eur'', ''gbp'', ''cad'', ''aud'', ''jpy'', ''sgd'', ''chf'', ''nok'', ''sek'', ''dkk'']"

definition optional_isIn :: "string option \<Rightarrow> string list \<Rightarrow> bool" where
  "optional_isIn x allowed = (case x of None \<Rightarrow> True | Some v \<Rightarrow> v \<in> set allowed)"

text \<open>The validators of the two creation routes (\<open>express-validator\<close>).\<close>

definition valid_stripe_request :: "payment_request \<Rightarrow> bool" where
  "valid_stripe_request req =
     (1 / 100 \<le> req_amount req \<and> optional_isIn (req_currency req) supported_currencies)"

definition mobile_money_networks :: "string list" where
  "mobile_money_networks = [''mtn'', ''airtel'', ''vodafone'']"

definition valid_paystack_request :: "payment_request \<Rightarrow> bool" where
  "valid_paystack_request req =
     (1 / 100 \<le> req_amount req
      \<and> optional_isIn (req_mobile_money_network req) mobile_money_networks)"

text \<open>What \<open>createPaymentIntent\<close> returns: \<open>{success: false, error}\<close> or the intent.\<close>

datatype stripe_result = StripeFailure string | StripeIntent string string json

definition new_payment ::
  "uuid \<Rightarrow> uuid \<Rightarrow> event_row \<Rightarrow> uuid \<Rightarrow> rat \<Rightarrow> settings_row \<Rightarrow> payment_method \<Rightarrow> payment_row" where
  "new_payment paymentId userId event contestant_id amount settings method =
     \<lparr>pay_id = paymentId, pay_voter_id = userId, pay_event_id = ev_id event,
      pay_contestant_id = contestant_id, pay_amount = amount,
      pay_platform_fee = platformFee amount (commission_rate settings),
      pay_organizer_earnings = organizerEarnings amount (commission_rate settings),
      pay_method = method, pay_provider_id = None, pay_intent_id = None,
      pay_status = Pending, pay_metadata = []\<rparr>"

definition status_only :: "string \<Rightarrow> payment_patch" where
  "status_only s =
     \<lparr>set_status = Some s, set_provider_id = None, set_intent_id = None, set_metadata = None\<rparr>"

text \<open>
  \<open>POST /stripe/create-intent\<close>. The arguments are the authenticated user, the clock,
  the identifier \<open>uuidv4()\<close> returns and the provider's answer.
\<close>

definition stripe_create_intent ::
  "uuid \<Rightarrow> timestamp \<Rightarrow> uuid \<Rightarrow> stripe_result \<Rightarrow> payment_request \<Rightarrow> database
     \<Rightarrow> reply \<times> database" where
  "stripe_create_intent userId now paymentId stripeResult req db =
     (if \<not> valid_stripe_request req then (ValidationErrors, db)
      else case select_contestant_with_event (req_contestant_id req) db of
        ContestantNotFound \<Rightarrow> (Error_json 404 ''Contestant not found'', db)
      | EventMissing \<Rightarrow> (Error_json 500 ''Failed to create payment intent'', db)
      | ContestantFound contestant event \<Rightarrow>
          if ev_status event \<noteq> Active then (Error_json 400 ''Event is not active'', db)
          else if now < ev_start_date event
            then (Error_json 400 ''Voting has not started yet'', db)
          else if now > ev_end_date event then (Error_json 400 ''Voting has ended'', db)
          else if req_amount req \<noteq> ev_vote_price event
            then (InvalidVoteAmount (ev_vote_price event) (req_amount req), db)
          else case single (platform_settings db) of
            None \<Rightarrow> (Error_json 400 ''Failed to fetch platform settings'', db)
          | Some settings \<Rightarrow>
              (case insert_payment
                      (new_payment paymentId userId event (req_contestant_id req)
                         (req_amount req) settings Stripe) db of
                 Inl e \<Rightarrow> (Error_json 400 ''Failed to create payment record'', db)
               | Inr db1 \<Rightarrow>
                   (case stripeResult of
                      StripeFailure msg \<Rightarrow>
                        (Error_json 400 ''Failed to create payment intent'',
                         ignore_error
                           (update_payments (status_only ''failed'')
                              (\<lambda>p. pay_id p = paymentId) db1) db1)
                    | StripeIntent intent_id client_secret raw \<Rightarrow>
                        (IntentCreated paymentId client_secret,
                         ignore_error
                           (update_payments
                              \<lparr>set_status = None, set_provider_id = None,
                               set_intent_id = Some intent_id,
                               set_metadata = Some [(''stripe_payment_intent'', raw)]\<rparr>
                              (\<lambda>p. pay_id p = paymentId) db1) db1))))"

text \<open>
  What \<open>axios.post(.../transaction/initialize)\<close> does: it throws, or it answers with
  \<open>status\<close> false, or with the authorization data.
\<close>

datatype paystack_result =
  PaystackThrew | PaystackDeclined string | PaystackAccepted string string string json

text \<open>\<open>POST /paystack/initialize\<close>.\<close>

definition paystack_initialize ::
  "uuid \<Rightarrow> timestamp \<Rightarrow> uuid \<Rightarrow> paystack_result \<Rightarrow> payment_request \<Rightarrow> database
     \<Rightarrow> reply \<times> database" where
  "paystack_initialize userId now paymentId paystackResponse req db =
     (if \<not> valid_paystack_request req then (ValidationErrors, db)
      else case select_contestant_with_event (req_contestant_id req) db of
        ContestantNotFound \<Rightarrow> (Error_json 404 ''Contestant not found'', db)
      | EventMissing \<Rightarrow> (Error_json 500 ''Failed to initialize payment'', db)
      | ContestantFound contestant event \<Rightarrow>
          if ev_status event \<noteq> Active then (Error_json 400 ''Event is not active'', db)
          else if now < ev_start_date event \<or> now > ev_end_date event
            then (Error_json 400 ''Voting period has ended or not started'', db)
          else if req_amount req \<noteq> ev_vote_price event
            then (InvalidVoteAmount (ev_vote_price event) (req_amount req), db)
          else case single (platform_settings db) of
            None \<Rightarrow> (Error_json 400 ''Failed to fetch platform settings'', db)
          | Some settings \<Rightarrow>
              (case insert_payment
                      (new_payment paymentId userId event (req_contestant_id req)
                         (req_amount req) settings Paystack) db of
                 Inl e \<Rightarrow> (Error_json 400 ''Failed to create payment record'', db)
               | Inr db1 \<Rightarrow>
                   (case paystackResponse of
                      PaystackThrew \<Rightarrow> (Error_json 500 ''Failed to initialize payment'', db1)
                    | PaystackDeclined msg \<Rightarrow>
                        (Error_json 400 ''Failed to initialize Paystack payment'',
                         ignore_error
                           (update_payments (status_only ''failed'')
                              (\<lambda>p. pay_id p = paymentId) db1) db1)
                    | PaystackAccepted url access_code reference raw \<Rightarrow>
                        (PaystackInitialized paymentId url access_code reference,
                         ignore_error
                           (update_payments
                              \<lparr>set_status = None, set_provider_id = Some reference,
                               set_intent_id = None,
                               set_metadata = Some [(''paystack_response'', raw)]\<rparr>
                              (\<lambda>p. pay_id p = paymentId) db1) db1))))"


section \<open>Verify and cancel (src/unnamed/part_001)\<close>

text \<open>
  \<open>GET /verify/:paymentId\<close>. \<open>stripeStatus\<close> is the status of the retrieved intent
  (\<open>None\<close> when the retrieval fails), \<open>paystackResponse\<close> the pair of the answer's
  \<open>status\<close> and \<open>data.status\<close> (\<open>None\<close> when the request throws). The result of the
  update is not read.
\<close>

definition verificationResult ::
  "payment_row \<Rightarrow> string option \<Rightarrow> (bool \<times> string) option \<Rightarrow> bool \<times> string" where
  "verificationResult payment stripeStatus paystackResponse =
     (if pay_method payment = Stripe \<and> \<not> falsy (pay_intent_id payment) then
        (case stripeStatus of
           None \<Rightarrow> (False, payment_status_text (pay_status payment))
         | Some status \<Rightarrow>
             if status = ''succeeded'' then (True, ''completed'')
             else if status = ''canceled'' \<or> status = ''payment_failed'' then (True, ''failed'')
             else (False, payment_status_text (pay_status payment)))
      else if pay_method payment = Paystack \<and> \<not> falsy (pay_provider_id payment) then
        (case paystackResponse of
           None \<Rightarrow> (False, payment_status_text (pay_status payment))
         | Some (ok, status) \<Rightarrow>
             if ok \<and> status = ''success'' then (True, ''completed'')
             else if status = ''failed'' \<or> status = ''abandoned'' then (True, ''failed'')
             else (False, payment_status_text (pay_status payment)))
      else (False, payment_status_text (pay_status payment)))"

definition verify_payment ::
  "uuid \<Rightarrow> uuid \<Rightarrow> string option \<Rightarrow> (bool \<times> string) option \<Rightarrow> database \<Rightarrow> reply \<times> database" where
  "verify_payment userId paymentId stripeStatus paystackResponse db =
     (case single (filter (\<lambda>p. pay_id p = paymentId \<and> pay_voter_id p = userId) (payments db)) of
        None \<Rightarrow> (Error_json 404 ''Payment not found'', db)
      | Some payment \<Rightarrow>
          if pay_status payment = Pending then
            (let result = verificationResult payment stripeStatus paystackResponse in
             if fst result \<and> snd result \<noteq> payment_status_text (pay_status payment) then
               (PaymentVerified (pay_id payment) (snd result)
                  (fst result \<or> snd result = ''completed''),
                ignore_error
                  (update_payments (status_only (snd result)) (\<lambda>p. pay_id p = paymentId) db) db)
             else
               (PaymentVerified (pay_id payment) (payment_status_text (pay_status payment))
                  (fst result \<or> pay_status payment = Completed), db))
          else
            (PaymentVerified (pay_id payment) (payment_status_text (pay_status payment))
               (pay_status payment = Completed), db))"

text \<open>
  \<open>POST /cancel/:paymentId\<close>. The cancellation at the provider is best effort and
  changes no local state.
\<close>

definition cancel_payment :: "uuid \<Rightarrow> uuid \<Rightarrow> database \<Rightarrow> reply \<times> database" where
  "cancel_payment userId paymentId db =
     (case single (filter (\<lambda>p. pay_id p = paymentId \<and> pay_voter_id p = userId
                                \<and> pay_status p = Pending) (payments db)) of
        None \<Rightarrow> (Error_json 404 ''Pending payment not found'', db)
      | Some payment \<Rightarrow>
          (case update_payments (status_only ''failed'') (\<lambda>p. pay_id p = paymentId) db of
             Inl e \<Rightarrow> (Error_json 400 ''Failed to cancel payment'', db)
           | Inr db' \<Rightarrow> (Message_json 200 ''Payment cancelled successfully'', db')))"

section \<open>Stripe webhook (src/routes/upload.js, second module)\<close>

text \<open>
  The object of a Stripe event, \<open>event.data.object\<close>: a payment intent or a dispute, with
  the fields the handlers read. \<open>so_metadata_payment_id\<close> is \<open>None\<close> also when the
  object carries no \<open>metadata\<close>: the handler's \<open>try\<close> catches the property read and
  returns, as it does on a missing \<open>payment_id\<close>.
\<close>

record stripe_object =
  so_id :: string
  so_metadata_payment_id :: "string option"
  so_last_payment_error_message :: "string option"
  so_cancellation_reason :: "string option"
  so_payment_intent :: "string option"
  so_reason :: json
  so_raw :: json

record stripe_event =
  se_type :: string
  se_object :: stripe_object

definition vote_of_payment :: "payment_row \<Rightarrow> vote_row" where
  "vote_of_payment payment =
     \<lparr>vote_voter_id = pay_voter_id payment, vote_contestant_id = pay_contestant_id payment,
      vote_event_id = pay_event_id payment, vote_payment_id = pay_id payment,
      vote_amount = pay_amount payment\<rparr>"

definition stripe_succeeded_patch :: "stripe_object \<Rightarrow> payment_row \<Rightarrow> payment_patch" where
  "stripe_succeeded_patch paymentIntent payment =
     \<lparr>set_status = Some ''completed'', set_provider_id = Some (so_id paymentIntent),
      set_intent_id = None,
      set_metadata =
        Some (json_set ''stripe_payment_intent'' (so_raw paymentIntent) (pay_metadata payment))\<rparr>"

definition handlePaymentSucceeded :: "stripe_object \<Rightarrow> database \<Rightarrow> database" where
  "handlePaymentSucceeded paymentIntent db =
     (if falsy (so_metadata_payment_id paymentIntent) then db
      else case single (filter (\<lambda>p. pay_intent_id p = Some (so_id paymentIntent)) (payments db)) of
        None \<Rightarrow> db
      | Some payment \<Rightarrow>
          (case update_payments (stripe_succeeded_patch paymentIntent payment)
                  (\<lambda>p. pay_id p = pay_id payment) db of
             Inl updateError \<Rightarrow> db
           | Inr db1 \<Rightarrow>
               (case insert_vote (vote_of_payment payment) db1 of
                  Inl voteError \<Rightarrow> db1
                | Inr db2 \<Rightarrow> db2)))"

definition handlePaymentFailed :: "stripe_object \<Rightarrow> database \<Rightarrow> database" where
  "handlePaymentFailed paymentIntent db =
     (if falsy (so_metadata_payment_id paymentIntent) then db
      else ignore_error
        (update_payments
           \<lparr>set_status = Some ''failed'', set_provider_id = Some (so_id paymentIntent),
            set_intent_id = None,
            set_metadata =
              Some [(''stripe_payment_intent'', so_raw paymentIntent),
                    (''failure_reason'',
                     (case so_last_payment_error_message paymentIntent of
                        None \<Rightarrow> ''Payment failed''
                      | Some m \<Rightarrow> if m = [] then ''Payment failed'' else m))]\<rparr>
           (\<lambda>p. pay_intent_id p = Some (so_id paymentIntent)) db) db)"

definition handlePaymentCanceled :: "stripe_object \<Rightarrow> database \<Rightarrow> database" where
  "handlePaymentCanceled paymentIntent db =
     (if falsy (so_metadata_payment_id paymentIntent) then db
      else ignore_error
        (update_payments
           \<lparr>set_status = Some ''failed'', set_provider_id = Some (so_id paymentIntent),
            set_intent_id = None,
            set_metadata =
              Some [(''stripe_payment_intent'', so_raw paymentIntent),
                    (''cancellation_reason'',
                     (case so_cancellation_reason paymentIntent of
                        None \<Rightarrow> ''Payment canceled''
                      | Some m \<Rightarrow> if m = [] then ''Payment canceled'' else m))]\<rparr>
           (\<lambda>p. pay_intent_id p = Some (so_id paymentIntent)) db) db)"

definition handleChargeDispute :: "stripe_object \<Rightarrow> database \<Rightarrow> database" where
  "handleChargeDispute dispute db =
     (if falsy (so_payment_intent dispute) then db
      else case single (filter (\<lambda>p. pay_intent_id p = so_payment_intent dispute) (payments db)) of
        None \<Rightarrow> db
      | Some payment \<Rightarrow>
          ignore_error
            (update_payments
               \<lparr>set_status = Some ''disputed'', set_provider_id = None, set_intent_id = None,
                set_metadata =
                  Some (json_set ''dispute_reason'' (so_reason dispute)
                          (json_set ''dispute'' (so_raw dispute) (pay_metadata payment)))\<rparr>
               (\<lambda>p. pay_id p = pay_id payment) db) db)"

definition stripe_dispatch :: "stripe_event \<Rightarrow> database \<Rightarrow> database" where
  "stripe_dispatch event db =
     (if se_type event = ''payment_intent.succeeded''
        then handlePaymentSucceeded (se_object event) db
      else if se_type event = ''payment_intent.payment_failed''
        then handlePaymentFailed (se_object event) db
      else if se_type event = ''payment_intent.canceled''
        then handlePaymentCanceled (se_object event) db
      else if se_type event = ''charge.dispute.created''
        then handleChargeDispute (se_object event) db
      else db)"

text \<open>
  The route. \<open>constructEvent\<close> is the provider's verification primitive
  (\<open>stripe.webhooks.constructEvent\<close> behind \<open>constructWebhookEvent\<close>): from the raw body,
  the signature header and the endpoint secret it gives the event, or \<open>None\<close> when the
  signature does not verify.
\<close>

definition stripe_webhook ::
  "(string \<Rightarrow> string \<Rightarrow> string \<Rightarrow> stripe_event option) \<Rightarrow> string option \<Rightarrow> string option
     \<Rightarrow> string \<Rightarrow> database \<Rightarrow> reply \<times> database" where
  "stripe_webhook constructEvent signature endpointSecret body db =
     (if falsy signature \<or> falsy endpointSecret
        then (Error_json 400 ''Missing webhook signature or secret'', db)
      else case constructEvent body (the signature) (the endpointSecret) of
        None \<Rightarrow> (Error_json 400 ''Webhook signature verification failed'', db)
      | Some event \<Rightarrow> (Received, stripe_dispatch event db))"

definition stripe_signature_verifies ::
  "(string \<Rightarrow> string \<Rightarrow> string \<Rightarrow> stripe_event option) \<Rightarrow> string option \<Rightarrow> string option
     \<Rightarrow> string \<Rightarrow> bool" where
  "stripe_signature_verifies constructEvent signature endpointSecret body =
     (\<not> falsy signature \<and> \<not> falsy endpointSecret
      \<and> constructEvent body (the signature) (the endpointSecret) \<noteq> None)"

section \<open>Paystack webhook (src/routes/upload.js, third module)\<close>

text \<open>
  The \<open>data\<close> of a Paystack event: a charge or a transfer. \<open>pd_fields\<close> are its own
  properties, which the transfer handlers copy into \<open>payment_details\<close>.
\<close>

record paystack_data =
  pd_reference :: "string option"
  pd_id :: "string option"
  pd_gateway_response :: "string option"
  pd_reason :: "string option"
  pd_fields :: "(string \<times> json) list"
  pd_raw :: json

record paystack_event =
  pe_event :: string
  pe_data :: paystack_data
  pe_stringified :: string

text \<open>
  The answer of \<open>GET /transaction/verify/:reference\<close>: \<open>None\<close> when the request throws,
  otherwise \<open>status\<close>, \<open>data.status\<close> and the serialised \<open>data\<close>.
\<close>

type_synonym paystack_verification = "(bool \<times> string \<times> json) option"

definition paystack_success_patch :: "paystack_data \<Rightarrow> json \<Rightarrow> payment_row \<Rightarrow> payment_patch" where
  "paystack_success_patch charge verification payment =
     \<lparr>set_status = Some ''completed'', set_provider_id = pd_id charge, set_intent_id = None,
      set_metadata =
        Some (json_set ''paystack_verification'' verification
                (json_set ''paystack_charge'' (pd_raw charge) (pay_metadata payment)))\<rparr>"

definition handleChargeSuccess ::
  "(string \<Rightarrow> paystack_verification) \<Rightarrow> paystack_data \<Rightarrow> database \<Rightarrow> database" where
  "handleChargeSuccess verify charge db =
     (if falsy (pd_reference charge) then db
      else case verify (the (pd_reference charge)) of
        None \<Rightarrow> db
      | Some (ok, status, verification) \<Rightarrow>
          if \<not> ok \<or> status \<noteq> ''success'' then db
          else case single (filter (\<lambda>p. pay_id p = the (pd_reference charge)) (payments db)) of
            None \<Rightarrow> db
          | Some payment \<Rightarrow>
              (case update_payments (paystack_success_patch charge verification payment)
                      (\<lambda>p. pay_id p = pay_id payment) db of
                 Inl updateError \<Rightarrow> db
               | Inr db1 \<Rightarrow>
                   (case insert_vote (vote_of_payment payment) db1 of
                      Inl voteError \<Rightarrow> db1
                    | Inr db2 \<Rightarrow> db2)))"

definition handleChargeFailed :: "paystack_data \<Rightarrow> database \<Rightarrow> database" where
  "handleChargeFailed charge db =
     (if falsy (pd_reference charge) then db
      else ignore_error
        (update_payments
           \<lparr>set_status = Some ''failed'', set_provider_id = pd_id charge, set_intent_id = None,
            set_metadata =
              Some [(''paystack_charge'', pd_raw charge),
                    (''failure_reason'',
                     (if falsy (pd_gateway_response charge) then ''Payment failed''
                      else the (pd_gateway_response charge)))]\<rparr>
           (\<lambda>p. pay_id p = the (pd_reference charge)) db) db)"

definition handleTransferSuccess :: "paystack_data \<Rightarrow> database \<Rightarrow> database" where
  "handleTransferSuccess transfer db =
     (if falsy (pd_reference transfer) then db
      else update_withdrawals
        (\<lambda>w. w\<lparr>wd_status := ''completed'',
               wd_payment_details :=
                 (case pd_id transfer of
                    None \<Rightarrow> pd_fields transfer
                  | Some i \<Rightarrow> json_set ''paystack_transfer_id'' i (pd_fields transfer))\<rparr>)
        (\<lambda>w. wd_id w = the (pd_reference transfer)) db)"

definition handleTransferFailed :: "paystack_data \<Rightarrow> database \<Rightarrow> database" where
  "handleTransferFailed transfer db =
     (if falsy (pd_reference transfer) then db
      else update_withdrawals
        (\<lambda>w. w\<lparr>wd_status := ''failed'',
               wd_payment_details :=
                 json_set ''failure_reason''
                   (if falsy (pd_reason transfer) then ''Transfer failed''
                    else the (pd_reason transfer))
                   (pd_fields transfer)\<rparr>)
        (\<lambda>w. wd_id w = the (pd_reference transfer)) db)"

definition paystack_dispatch ::
  "(string \<Rightarrow> paystack_verification) \<Rightarrow> paystack_event \<Rightarrow> database \<Rightarrow> database" where
  "paystack_dispatch verify event db =
     (if pe_event event = ''charge.success'' then handleChargeSuccess verify (pe_data event) db
      else if pe_event event = ''charge.failed'' then handleChargeFailed (pe_data event) db
      else if pe_event event = ''transfer.success''
        then handleTransferSuccess (pe_data event) db
      else if pe_event event = ''transfer.failed''
        then handleTransferFailed (pe_data event) db
      else db)"

text \<open>
  The route. \<open>hmac\<close> is \<open>crypto.createHmac('sha512', secret).update(text).digest('hex')\<close>
  and \<open>pe_stringified\<close> is \<open>JSON.stringify(req.body)\<close>.
\<close>

definition paystack_webhook ::
  "(string \<Rightarrow> string \<Rightarrow> string) \<Rightarrow> (string \<Rightarrow> paystack_verification) \<Rightarrow> string option
     \<Rightarrow> string option \<Rightarrow> paystack_event \<Rightarrow> database \<Rightarrow> reply \<times> database" where
  "paystack_webhook hmac verify signature secret event db =
     (if falsy signature \<or> falsy secret
        then (Error_json 400 ''Missing webhook signature or secret'', db)
      else if hmac (the secret) (pe_stringified event) \<noteq> the signature
        then (Error_json 400 ''Webhook signature verification failed'', db)
      else (Received, paystack_dispatch verify event db))"

definition paystack_signature_verifies ::
  "(string \<Rightarrow> string \<Rightarrow> string) \<Rightarrow> string option \<Rightarrow> string option \<Rightarrow> paystack_event \<Rightarrow> bool" where
  "paystack_signature_verifies hmac signature secret event =
     (\<not> falsy signature \<and> \<not> falsy secret
      \<and> hmac (the secret) (pe_stringified event) = the signature)"

section \<open>Vote creation (src/routes/votes.js)\<close>

record vote_request =
  vr_contestant_id :: uuid
  vr_payment_id :: uuid
  vr_amount :: rat

definition requested_vote :: "uuid \<Rightarrow> event_row \<Rightarrow> vote_request \<Rightarrow> vote_row" where
  "requested_vote voterId event req =
     \<lparr>vote_voter_id = voterId, vote_contestant_id = vr_contestant_id req,
      vote_event_id = ev_id event, vote_payment_id = vr_payment_id req,
      vote_amount = vr_amount req\<rparr>"

definition valid_vote_request :: "vote_request \<Rightarrow> bool" where
  "valid_vote_request req = (1 / 100 \<le> vr_amount req)"

text \<open>\<open>POST /\<close> of the votes router, called by the client after a successful payment.\<close>

definition create_vote :: "uuid \<Rightarrow> timestamp \<Rightarrow> vote_request \<Rightarrow> database \<Rightarrow> reply \<times> database" where
  "create_vote voterId now req db =
     (if \<not> valid_vote_request req then (ValidationErrors, db)
      else case select_contestant_with_event (vr_contestant_id req) db of
        ContestantNotFound \<Rightarrow> (Error_json 404 ''Contestant not found'', db)
      | EventMissing \<Rightarrow> (Error_json 500 ''Failed to cast vote'', db)
      | ContestantFound contestant event \<Rightarrow>
          if ev_status event \<noteq> Active then (Error_json 400 ''Event is not active'', db)
          else if now < ev_start_date event
            then (Error_json 400 ''Voting has not started yet'', db)
          else if now > ev_end_date event then (Error_json 400 ''Voting has ended'', db)
          else if vr_amount req \<noteq> ev_vote_price event
            then (InvalidVoteAmount (ev_vote_price event) (vr_amount req), db)
          else case single (filter (\<lambda>p. pay_id p = vr_payment_id req) (payments db)) of
            None \<Rightarrow> (Error_json 404 ''Payment not found'', db)
          | Some payment \<Rightarrow>
              if pay_status payment \<noteq> Completed
                then (Error_json 400 ''Payment not completed'', db)
              else if pay_contestant_id payment \<noteq> vr_contestant_id req
                      \<or> pay_voter_id payment \<noteq> voterId
                then (Error_json 400 ''Payment mismatch'', db)
              else case single (filter (\<lambda>v. vote_payment_id v = vr_payment_id req) (votes db)) of
                Some existingVote \<Rightarrow>
                  (Error_json 400 ''Vote already exists for this payment'', db)
              | None \<Rightarrow>
                  (case insert_vote (requested_vote voterId event req) db of
                     Inl e \<Rightarrow> (Error_json 400 ''Failed to create vote'', db)
                   | Inr db' \<Rightarrow>
                       (VoteCast
                          ((requested_vote voterId event req)
                             \<lparr>vote_amount := decimal_10_2 (vr_amount req)\<rparr>), db')))"

section \<open>Organizer withdrawals (src/routes/organizer.js)\<close>

record withdrawal_request =
  wr_amount :: rat
  wr_payment_method :: string
  wr_account_number :: "string option"
  wr_bank_name :: "string option"
  wr_account_name :: "string option"
  wr_mobile_number :: "string option"
  wr_network :: "string option"

text \<open>
  The balance computation of \<open>POST /withdrawals\<close>, by the names of its variables.
  \<open>settings?.commission_rate || 0.05\<close> takes the default also for a stored rate of zero.
\<close>

definition totalRevenue :: "uuid \<Rightarrow> database \<Rightarrow> rat" where
  "totalRevenue organizerId db =
     foldl (\<lambda>sum e. sum + ev_total_revenue e) 0
       (filter (\<lambda>e. ev_organizer_id e = organizerId) (events db))"

definition commissionRate :: "database \<Rightarrow> rat" where
  "commissionRate db =
     (case single (platform_settings db) of
        None \<Rightarrow> 5 / 100
      | Some settings \<Rightarrow>
          if commission_rate settings = 0 then 5 / 100 else commission_rate settings)"

definition availableEarnings :: "uuid \<Rightarrow> database \<Rightarrow> rat" where
  "availableEarnings organizerId db = totalRevenue organizerId db * (1 - commissionRate db)"

definition totalWithdrawnOrPending :: "uuid \<Rightarrow> database \<Rightarrow> rat" where
  "totalWithdrawnOrPending organizerId db =
     foldl (\<lambda>sum w. sum + wd_amount w) 0
       (filter (\<lambda>w. wd_organizer_id w = organizerId
                    \<and> wd_status w \<in> set [''completed'', ''pending'', ''processing''])
          (withdrawals db))"

definition withdrawableAmount :: "uuid \<Rightarrow> database \<Rightarrow> rat" where
  "withdrawableAmount organizerId db =
     availableEarnings organizerId db - totalWithdrawnOrPending organizerId db"

definition withdrawal_details :: "withdrawal_request \<Rightarrow> json \<Rightarrow> (string \<times> json) list" where
  "withdrawal_details req requested_at =
     json_set ''requested_at'' requested_at
       ((''method'', wr_payment_method req) #
        concat (map (\<lambda>(k, v). case v of None \<Rightarrow> [] | Some x \<Rightarrow> [(k, x)])
          [(''account_number'', wr_account_number req), (''bank_name'', wr_bank_name req),
           (''account_name'', wr_account_name req), (''mobile_number'', wr_mobile_number req),
           (''network'', wr_network req)]))"

definition valid_withdrawal_request :: "withdrawal_request \<Rightarrow> bool" where
  "valid_withdrawal_request req =
     (1 \<le> wr_amount req
      \<and> wr_payment_method req \<in> set [''bank_transfer'', ''mobile_money'', ''paystack'']
      \<and> optional_isIn (wr_network req) mobile_money_networks)"

text \<open>
  \<open>POST /withdrawals\<close>. The arguments are the authenticated organizer, the identifier
  \<open>uuidv4()\<close> returns and the serialised time of the request.
\<close>

definition request_withdrawal ::
  "uuid \<Rightarrow> uuid \<Rightarrow> json \<Rightarrow> withdrawal_request \<Rightarrow> database \<Rightarrow> reply \<times> database" where
  "request_withdrawal organizerId withdrawalId requested_at req db =
     (if \<not> valid_withdrawal_request req then (ValidationErrors, db)
      else if wr_amount req > withdrawableAmount organizerId db
        then (InsufficientBalance (withdrawableAmount organizerId db) (wr_amount req), db)
      else if wr_payment_method req = ''bank_transfer''
              \<and> (falsy (wr_account_number req) \<or> falsy (wr_bank_name req)
                   \<or> falsy (wr_account_name req))
        then (Error_json 400
                ''Bank transfer requires account_number, bank_name, and account_name'', db)
      else if wr_payment_method req = ''mobile_money''
              \<and> (falsy (wr_mobile_number req) \<or> falsy (wr_network req))
        then (Error_json 400 ''Mobile money requires mobile_number and network'', db)
      else case insert_withdrawal
                  \<lparr>wd_id = withdrawalId, wd_organizer_id = organizerId,
                   wd_amount = wr_amount req, wd_status = ''pending'',
                   wd_payment_details = withdrawal_details req requested_at\<rparr> db of
        Inl e \<Rightarrow> (Error_json 400 ''Failed to create withdrawal request'', db)
      | Inr db' \<Rightarrow>
          (WithdrawalSubmitted
             \<lparr>wd_id = withdrawalId, wd_organizer_id = organizerId,
              wd_amount = decimal_10_2 (wr_amount req), wd_status = ''pending'',
              wd_payment_details = withdrawal_details req requested_at\<rparr>, db'))"

text \<open>
  The summary of \<open>GET /earnings\<close>, over the rows \<open>earnings\<close> that its query on the
  payments table returns: it adds their stored \<open>organizer_earnings\<close> and \<open>platform_fee\<close>.
\<close>

definition totalEarnings :: "payment_row list \<Rightarrow> rat" where
  "totalEarnings earnings = foldl (\<lambda>sum e. sum + pay_organizer_earnings e) 0 earnings"

definition totalPlatformFees :: "payment_row list \<Rightarrow> rat" where
  "totalPlatformFees earnings = foldl (\<lambda>sum e. sum + pay_platform_fee e) 0 earnings"

section \<open>Platform settings (src/routes/votes.js, admin module)\<close>

record settings_update =
  su_commission_rate :: "rat option"
  su_stripe_enabled :: "bool option"
  su_paystack_enabled :: "bool option"

text \<open>
  \<open>PUT /settings\<close>: the update names no filter and asks for \<open>.single()\<close>; with exactly
  one settings row that row is updated. \<open>commission_rate\<close> is a \<open>DECIMAL(5,4)\<close> column.
\<close>

definition valid_settings_update :: "settings_update \<Rightarrow> bool" where
  "valid_settings_update upd =
     (case su_commission_rate upd of None \<Rightarrow> True | Some r \<Rightarrow> 0 \<le> r \<and> r \<le> 1)"

definition update_platform_settings :: "settings_update \<Rightarrow> database \<Rightarrow> reply \<times> database" where
  "update_platform_settings upd db =
     (if \<not> valid_settings_update upd then (ValidationErrors, db)
      else case single (platform_settings db) of
        None \<Rightarrow> (Error_json 400 ''Failed to update platform settings'', db)
      | Some settings \<Rightarrow>
          (let settings' =
                 \<lparr>commission_rate =
                    (case su_commission_rate upd of
                       None \<Rightarrow> commission_rate settings | Some r \<Rightarrow> decimal_5_4 r),
                  stripe_enabled =
                    (case su_stripe_enabled upd of
                       None \<Rightarrow> stripe_enabled settings | Some b \<Rightarrow> b),
                  paystack_enabled =
                    (case su_paystack_enabled upd of
                       None \<Rightarrow> paystack_enabled settings | Some b \<Rightarrow> b)\<rparr>
           in (SettingsUpdated settings', db\<lparr>platform_settings := [settings']\<rparr>)))"

section \<open>Sequences of status writers\<close>

text \<open>
  The operations that write \<open>payments.status\<close> after creation: the webhook events of both
  providers, the verify route and the cancel route, each with the values it receives from
  outside. A sequence of them is applied from left to right.
\<close>

datatype ledger_op =
    StripeEvent stripe_event
  | PaystackEvent "string \<Rightarrow> paystack_verification" paystack_event
  | Verify uuid uuid "string option" "(bool \<times> string) option"
  | Cancel uuid uuid

fun apply_op :: "ledger_op \<Rightarrow> database \<Rightarrow> database" where
  "apply_op (StripeEvent event) db = stripe_dispatch event db"
| "apply_op (PaystackEvent verify event) db = paystack_dispatch verify event db"
| "apply_op (Verify userId paymentId stripeStatus paystackResponse) db =
     snd (verify_payment userId paymentId stripeStatus paystackResponse db)"
| "apply_op (Cancel userId paymentId) db = snd (cancel_payment userId paymentId db)"



section \<open>Commit attempts as interleaved storage operations\<close>

text \<open>
  The three places that insert a vote for a payment: \<open>handlePaymentSucceeded\<close>,
  \<open>handleChargeSuccess\<close> and the vote-creation route. Each \<open>await\<close> on the store is one
  atomic step of a process; between two steps of one process any steps of the others may
  run. A process carries its local variables to its next step. The Paystack task carries
  the answer of the provider's verification request.
\<close>

datatype commit_task =
    StripeSucceeded stripe_object
  | PaystackSuccess paystack_verification paystack_data
  | VoteRequest uuid timestamp vote_request

datatype proc =
    Start commit_task
  | UpdatePayment payment_patch payment_row
  | SelectPayment uuid vote_request event_row
  | SelectExistingVote uuid vote_request event_row
  | InsertVote vote_row
  | Finished

fun step :: "proc \<Rightarrow> database \<Rightarrow> proc \<times> database" where
  "step (Start (StripeSucceeded paymentIntent)) db =
     (if falsy (so_metadata_payment_id paymentIntent) then (Finished, db)
      else case single (filter (\<lambda>p. pay_intent_id p = Some (so_id paymentIntent)) (payments db)) of
        None \<Rightarrow> (Finished, db)
      | Some payment \<Rightarrow>
          (UpdatePayment (stripe_succeeded_patch paymentIntent payment) payment, db))"
| "step (Start (PaystackSuccess answer charge)) db =
     (if falsy (pd_reference charge) then (Finished, db)
      else case answer of
        None \<Rightarrow> (Finished, db)
      | Some (ok, status, verification) \<Rightarrow>
          if \<not> ok \<or> status \<noteq> ''success'' then (Finished, db)
          else case single (filter (\<lambda>p. pay_id p = the (pd_reference charge)) (payments db)) of
            None \<Rightarrow> (Finished, db)
          | Some payment \<Rightarrow>
              (UpdatePayment (paystack_success_patch charge verification payment) payment, db))"
| "step (Start (VoteRequest voterId now req)) db =
     (if \<not> valid_vote_request req then (Finished, db)
      else case select_contestant_with_event (vr_contestant_id req) db of
        ContestantNotFound \<Rightarrow> (Finished, db)
      | EventMissing \<Rightarrow> (Finished, db)
      | ContestantFound contestant event \<Rightarrow>
          if ev_status event \<noteq> Active then (Finished, db)
          else if now < ev_start_date event then (Finished, db)
          else if now > ev_end_date event then (Finished, db)
          else if vr_amount req \<noteq> ev_vote_price event then (Finished, db)
          else (SelectPayment voterId req event, db))"
| "step (UpdatePayment patch payment) db =
     (case update_payments patch (\<lambda>p. pay_id p = pay_id payment) db of
        Inl updateError \<Rightarrow> (Finished, db)
      | Inr db1 \<Rightarrow> (InsertVote (vote_of_payment payment), db1))"
| "step (SelectPayment voterId req event) db =
     (case single (filter (\<lambda>p. pay_id p = vr_payment_id req) (payments db)) of
        None \<Rightarrow> (Finished, db)
      | Some payment \<Rightarrow>
          if pay_status payment \<noteq> Completed then (Finished, db)
          else if pay_contestant_id payment \<noteq> vr_contestant_id req
                  \<or> pay_voter_id payment \<noteq> voterId
            then (Finished, db)
          else (SelectExistingVote voterId req event, db))"
| "step (SelectExistingVote voterId req event) db =
     (case single (filter (\<lambda>v. vote_payment_id v = vr_payment_id req) (votes db)) of
        Some existingVote \<Rightarrow> (Finished, db)
      | None \<Rightarrow> (InsertVote (requested_vote voterId event req), db))"
| "step (InsertVote vote) db =
     (case insert_vote vote db of
        Inl voteError \<Rightarrow> (Finished, db)
      | Inr db' \<Rightarrow> (Finished, db'))"
| "step Finished db = (Finished, db)"

text \<open>A process run on its own, without interleaving: \<open>n\<close> steps in a row.\<close>

fun run_steps :: "nat \<Rightarrow> proc \<times> database \<Rightarrow> proc \<times> database" where
  "run_steps 0 cfg = cfg"
| "run_steps (Suc n) (p, db) = run_steps n (step p db)"

text \<open>
  An interleaving is a schedule: the list of the indices of the processes that take the
  next step, in order.
\<close>

fun interleave :: "nat list \<Rightarrow> proc list \<times> database \<Rightarrow> proc list \<times> database" where
  "interleave [] cfg = cfg"
| "interleave (i # schedule) (procs, db) =
     (if i < length procs
      then (case step (procs ! i) db of
              (p', db') \<Rightarrow> interleave schedule (procs[i := p'], db'))
      else interleave schedule (procs, db))"



text \<open>The votes that reference a payment.\<close>

definition votes_for :: "uuid \<Rightarrow> database \<Rightarrow> vote_row list" where
  "votes_for payment_id db = filter (\<lambda>v. vote_payment_id v = payment_id) (votes db)"


definition con_related :: "contestant_row \<Rightarrow> contestant_row \<Rightarrow> bool" where
  "con_related c c' = (con_id c' = con_id c \<and> con_category_id c' = con_category_id c)"

definition ev_related :: "event_row \<Rightarrow> event_row \<Rightarrow> bool" where
  "ev_related e e' =
     (ev_id e' = ev_id e \<and> ev_status e' = ev_status e \<and> ev_start_date e' = ev_start_date e
      \<and> ev_end_date e' = ev_end_date e \<and> ev_vote_price e' = ev_vote_price e)"

definition counted :: "uuid \<Rightarrow> database \<Rightarrow> database \<Rightarrow> bool" where
  "counted pid db0 d =
     ((votes_for pid d = [] \<and> contestants d = contestants db0 \<and> events d = events db0)
      \<or> (\<exists>v. votes_for pid d = [v]
             \<and> contestants d = contestants (update_vote_counts v db0)
             \<and> events d = events (update_vote_counts v db0)))"






definition passes_vote_checks :: "uuid \<Rightarrow> timestamp \<Rightarrow> vote_request \<Rightarrow> database \<Rightarrow> bool" where
  "passes_vote_checks voterId now req db =
     (valid_vote_request req
      \<and> (case select_contestant_with_event (vr_contestant_id req) db of
            ContestantFound contestant event \<Rightarrow>
              ev_status event = Active \<and> ev_start_date event \<le> now
              \<and> now \<le> ev_end_date event \<and> vr_amount req = ev_vote_price event
              \<and> (case single (filter (\<lambda>p. pay_id p = vr_payment_id req) (payments db)) of
                    Some payment \<Rightarrow>
                      pay_status payment = Completed
                      \<and> pay_contestant_id payment = vr_contestant_id req
                      \<and> pay_voter_id payment = voterId
                  | None \<Rightarrow> False)
          | _ \<Rightarrow> False))"

section \<open>Status writers as interleaved storage operations\<close>

text \<open>
  The writers of \<open>payments.status\<close> with their \<open>await\<close>s as step boundaries. The success
  handlers are the commit processes above. \<open>handlePaymentFailed\<close>,
  \<open>handlePaymentCanceled\<close> and \<open>handleChargeFailed\<close> are one \<open>UPDATE\<close> each. The dispute
  handler, the verify route and the cancel route read the payment in one step and write in
  a later one: between the two the verify route awaits the provider's answer and the
  cancel route the provider's cancellation, and the write is
  \<open>.update(...).eq('id', paymentId)\<close>, selected by the key alone. A writer between its
  read and its write carries the update object and the key.
\<close>

datatype writer =
    Begin ledger_op
  | Committing proc
  | Writing payment_patch uuid
  | Stopped

definition commit_step :: "proc \<Rightarrow> database \<Rightarrow> writer \<times> database" where
  "commit_step p db =
     (case step p db of (p', db') \<Rightarrow> (if p' = Finished then Stopped else Committing p', db'))"

fun writer_step :: "writer \<Rightarrow> database \<Rightarrow> writer \<times> database" where
  "writer_step (Begin (StripeEvent event)) db =
     (if se_type event = ''payment_intent.succeeded''
        then commit_step (Start (StripeSucceeded (se_object event))) db
      else if se_type event = ''payment_intent.payment_failed''
        then (Stopped, handlePaymentFailed (se_object event) db)
      else if se_type event = ''payment_intent.canceled''
        then (Stopped, handlePaymentCanceled (se_object event) db)
      else if se_type event = ''charge.dispute.created''
        then (if falsy (so_payment_intent (se_object event)) then (Stopped, db)
              else case single (filter (\<lambda>p. pay_intent_id p = so_payment_intent (se_object event))
                                 (payments db)) of
                None \<Rightarrow> (Stopped, db)
              | Some payment \<Rightarrow>
                  (Writing
                     \<lparr>set_status = Some ''disputed'', set_provider_id = None,
                      set_intent_id = None,
                      set_metadata =
                        Some (json_set ''dispute_reason'' (so_reason (se_object event))
                                (json_set ''dispute'' (so_raw (se_object event))
                                   (pay_metadata payment)))\<rparr>
                     (pay_id payment), db))
      else (Stopped, db))"
| "writer_step (Begin (PaystackEvent verify event)) db =
     (if pe_event event = ''charge.success''
        then commit_step
               (Start (PaystackSuccess (verify (the (pd_reference (pe_data event))))
                         (pe_data event))) db
      else if pe_event event = ''charge.failed''
        then (Stopped, handleChargeFailed (pe_data event) db)
      else if pe_event event = ''transfer.success''
        then (Stopped, handleTransferSuccess (pe_data event) db)
      else if pe_event event = ''transfer.failed''
        then (Stopped, handleTransferFailed (pe_data event) db)
      else (Stopped, db))"
| "writer_step (Begin (Verify userId paymentId stripeStatus paystackResponse)) db =
     (case single (filter (\<lambda>p. pay_id p = paymentId \<and> pay_voter_id p = userId) (payments db)) of
        None \<Rightarrow> (Stopped, db)
      | Some payment \<Rightarrow>
          if pay_status payment = Pending then
            (let result = verificationResult payment stripeStatus paystackResponse in
             if fst result \<and> snd result \<noteq> payment_status_text (pay_status payment)
               then (Writing (status_only (snd result)) paymentId, db)
             else (Stopped, db))
          else (Stopped, db))"
| "writer_step (Begin (Cancel userId paymentId)) db =
     (case single (filter (\<lambda>p. pay_id p = paymentId \<and> pay_voter_id p = userId
                                \<and> pay_status p = Pending) (payments db)) of
        None \<Rightarrow> (Stopped, db)
      | Some payment \<Rightarrow> (Writing (status_only ''failed'') paymentId, db))"
| "writer_step (Committing p) db = commit_step p db"
| "writer_step (Writing patch paymentId) db =
     (Stopped, ignore_error (update_payments patch (\<lambda>p. pay_id p = paymentId) db) db)"
| "writer_step Stopped db = (Stopped, db)"

text \<open>A writer run on its own, and writers run under a schedule.\<close>

fun run_writer :: "nat \<Rightarrow> writer \<times> database \<Rightarrow> writer \<times> database" where
  "run_writer 0 cfg = cfg"
| "run_writer (Suc n) (w, db) = run_writer n (writer_step w db)"

fun interleave_writers ::
  "nat list \<Rightarrow> writer list \<times> database \<Rightarrow> writer list \<times> database" where
  "interleave_writers [] cfg = cfg"
| "interleave_writers (i # schedule) (ws, db) =
     (if i < length ws
      then (case writer_step (ws ! i) db of
              (w', db') \<Rightarrow> interleave_writers schedule (ws[i := w'], db'))
      else interleave_writers schedule (ws, db))"


section \<open>A concrete store\<close>

text \<open>
  The scenario of the specification: an active event with a vote price of 5.00 and a
  commission rate of 0.05, one contestant, and one pending Stripe payment of its voter.
\<close>

definition example_event :: event_row where
  "example_event =
     \<lparr>ev_id = ''e1'', ev_organizer_id = ''o1'', ev_vote_price = 5, ev_start_date = 100,
      ev_end_date = 200, ev_status = Active, ev_total_votes = 0, ev_total_revenue = 0\<rparr>"

definition example_payment :: payment_row where
  "example_payment =
     \<lparr>pay_id = ''p1'', pay_voter_id = ''u1'', pay_event_id = ''e1'', pay_contestant_id = ''c1'',
      pay_amount = 5, pay_platform_fee = 1 / 4, pay_organizer_earnings = 19 / 4,
      pay_method = Stripe, pay_provider_id = None, pay_intent_id = Some ''pi_1'',
      pay_status = Pending, pay_metadata = []\<rparr>"

definition example_db :: database where
  "example_db =
     \<lparr>users = [''u1'', ''o1''], events = [example_event],
      categories = [\<lparr>cat_id = ''g1'', cat_event_id = ''e1''\<rparr>],
      contestants = [\<lparr>con_id = ''c1'', con_category_id = ''g1'', con_vote_count = 0\<rparr>],
      votes = [], payments = [example_payment],
      platform_settings =
        [\<lparr>commission_rate = 1 / 20, stripe_enabled = True, paystack_enabled = True\<rparr>],
      withdrawals = []\<rparr>"

definition example_intent :: stripe_object where
  "example_intent =
     \<lparr>so_id = ''pi_1'', so_metadata_payment_id = Some ''p1'',
      so_last_payment_error_message = None, so_cancellation_reason = None,
      so_payment_intent = None, so_reason = [], so_raw = ''{}''\<rparr>"

definition example_dispute :: stripe_object where
  "example_dispute =
     \<lparr>so_id = ''dp_1'', so_metadata_payment_id = None,
      so_last_payment_error_message = None, so_cancellation_reason = None,
      so_payment_intent = Some ''pi_1'', so_reason = ''fraudulent'', so_raw = ''{}''\<rparr>"

definition example_request :: payment_request where
  "example_request =
     \<lparr>req_contestant_id = ''c1'', req_amount = 5, req_currency = None,
      req_mobile_money_network = None\<rparr>"

definition example_vote_request :: vote_request where
  "example_vote_request = \<lparr>vr_contestant_id = ''c1'', vr_payment_id = ''p1'', vr_amount = 5\<rparr>"

text \<open>The store once the payment is completed, and once its revenue is 100.00.\<close>

definition completed_db :: database where
  "completed_db = example_db\<lparr>payments := [example_payment\<lparr>pay_status := Completed\<rparr>]\<rparr>"

definition revenue_db :: database where
  "revenue_db = example_db\<lparr>events := [example_event\<lparr>ev_total_revenue := 100\<rparr>]\<rparr>"

definition example_withdrawal :: "rat \<Rightarrow> withdrawal_request" where
  "example_withdrawal amount =
     \<lparr>wr_amount = amount, wr_payment_method = ''paystack'', wr_account_number = None,
      wr_bank_name = None, wr_account_name = None, wr_mobile_number = None,
      wr_network = None\<rparr>"

text \<open>
  Three commit attempts for the completed example payment, two deliveries of the Stripe
  success event and one vote-creation request, and a schedule in which all three reach
  their insert before any of them has inserted.
\<close>

definition example_tasks :: "commit_task list" where
  "example_tasks =
     [StripeSucceeded example_intent, VoteRequest ''u1'' 150 example_vote_request,
      StripeSucceeded example_intent]"

definition example_schedule :: "nat list" where
  "example_schedule = [0, 1, 2, 0, 1, 2, 1, 0, 2, 1]"

section \<open>Currency round trip\<close>









section \<open>Facts about the concrete store\<close>

lemmas example_defs = example_event_def example_payment_def example_db_def example_intent_def
  example_dispute_def example_request_def example_vote_request_def completed_db_def
  revenue_db_def example_withdrawal_def

section \<open>Webhook acknowledgement\<close>

text \<open>
  C6. A webhook request whose signature verifies is answered with the acknowledgement
  \<open>{received: true}\<close> (status 200), whatever the event type and whatever happens inside
  the handler it is dispatched to; a request whose signature is missing or does not verify
  is answered with status 400 and leaves the store unchanged. This holds for the Stripe and
  for the Paystack route.
\<close>

theorem webhook_acknowledgement:
  "(if stripe_signature_verifies constructEvent signature endpointSecret body
    then fst (stripe_webhook constructEvent signature endpointSecret body db) = Received
    else status_code (fst (stripe_webhook constructEvent signature endpointSecret body db)) = 400
       \<and> snd (stripe_webhook constructEvent signature endpointSecret body db) = db)
   \<and> (if paystack_signature_verifies hmac signature' secret event
    then fst (paystack_webhook hmac verify signature' secret event db) = Received
    else status_code (fst (paystack_webhook hmac verify signature' secret event db)) = 400
       \<and> snd (paystack_webhook hmac verify signature' secret event db) = db)"
  by (auto simp add: stripe_signature_verifies_def stripe_webhook_def
      paystack_signature_verifies_def paystack_webhook_def split: option.splits)

text \<open>
  A second delivery of \<open>payment_intent.succeeded\<close>: the insertion of the vote is refused
  by the uniqueness constraint, and the route still acknowledges.
\<close>

lemma duplicate_delivery_insert_fails:
  "insert_vote (vote_of_payment example_payment) (handlePaymentSucceeded example_intent example_db)
     = Inl UniqueViolation"
  by code_simp

theorem webhook_acknowledgement_witness:
  "stripe_signature_verifies
     (\<lambda>body signature secret.
        Some \<lparr>se_type = ''payment_intent.succeeded'', se_object = example_intent\<rparr>)
     (Some ''t=1,v1=ab'') (Some ''whsec'') ''{}''
   \<and> fst (stripe_webhook
       (\<lambda>body signature secret.
          Some \<lparr>se_type = ''payment_intent.succeeded'', se_object = example_intent\<rparr>)
       (Some ''t=1,v1=ab'') (Some ''whsec'') ''{}''
       (handlePaymentSucceeded example_intent example_db)) = Received"
proof -
  let ?ce = "\<lambda>body signature secret.
        Some \<lparr>se_type = ''payment_intent.succeeded'', se_object = example_intent\<rparr>"
  have v: "stripe_signature_verifies ?ce (Some ''t=1,v1=ab'') (Some ''whsec'') ''{}''"
    by (simp add: stripe_signature_verifies_def falsy_def)
  from webhook_acknowledgement [of ?ce "Some ''t=1,v1=ab''" "Some ''whsec''" "''{}''"
      "handlePaymentSucceeded example_intent example_db"] v
  show ?thesis by simp
qed

section \<open>Disputes\<close>

lemma disputed_not_in_enum: "payment_status_of_text ''disputed'' = None"
  by (simp add: payment_status_of_text_def)

text \<open>
  C9. The dispute handler asks the store to set the status \<open>'disputed'\<close>, which is not a
  value of the enum \<open>payment_status\<close> of the schema: the update is refused and the handler
  leaves the store as it was. A completed payment stays completed; its vote is not touched.
\<close>

theorem dispute_update_refused:
  "handleChargeDispute dispute db = db
   \<and> map pay_status (payments (handleChargeDispute example_dispute completed_db)) = [Completed]
   \<and> votes (handleChargeDispute dispute db) = votes db"
  by (simp add: handleChargeDispute_def update_payments_def ignore_error_def
      disputed_not_in_enum example_defs split: option.splits)

section \<open>Withdrawals\<close>

text \<open>
  C10. A validated withdrawal request whose amount exceeds the withdrawable balance computed
  at request time is answered with \<open>Insufficient balance\<close>, the available balance and the
  requested amount, and the store is unchanged; and whenever the route changes the
  withdrawals table, the amount was at most that balance.
\<close>

theorem withdrawal_balance_check:
  assumes "valid_withdrawal_request req"
  shows "(wr_amount req > withdrawableAmount organizerId db \<longrightarrow>
            request_withdrawal organizerId withdrawalId requested_at req db =
              (InsufficientBalance (withdrawableAmount organizerId db) (wr_amount req), db))
       \<and> (withdrawals (snd (request_withdrawal organizerId withdrawalId requested_at req db))
             \<noteq> withdrawals db \<longrightarrow>
            wr_amount req \<le> withdrawableAmount organizerId db)"
  using assms
  by (auto simp add: request_withdrawal_def split: sum.splits)

lemma revenue_db_withdrawable: "withdrawableAmount ''o1'' revenue_db = 95"
  by code_simp

lemma example_withdrawal_valid: "valid_withdrawal_request (example_withdrawal 96)"
  by code_simp

theorem withdrawal_balance_check_witness:
  "valid_withdrawal_request (example_withdrawal 96)
   \<and> wr_amount (example_withdrawal 96) > withdrawableAmount ''o1'' revenue_db
   \<and> request_withdrawal ''o1'' ''w1'' ''2026-01-01'' (example_withdrawal 96) revenue_db =
       (InsufficientBalance 95 96, revenue_db)"
proof -
  have a: "wr_amount (example_withdrawal 96) = 96"
    by (simp add: example_withdrawal_def)
  from withdrawal_balance_check [OF example_withdrawal_valid, of "''o1''" revenue_db "''w1''"
      "''2026-01-01''"]
  show ?thesis
    by (simp add: example_withdrawal_valid revenue_db_withdrawable a)
qed

section \<open>Generic facts about the store\<close>

lemma single_filter_mem: "single (filter P xs) = Some x \<Longrightarrow> x \<in> set xs \<and> P x"
  by (auto simp add: single_def split: list.splits)
     (metis filter_eq_Cons_iff in_set_conv_decomp)+





section \<open>Commission split\<close>








section \<open>Eligibility\<close>

text \<open>
  C4, as the specification states it, fails on the Paystack route: a request before the
  start of the voting window and a request after its end receive the same reason.
\<close>

theorem paystack_window_reasons_coincide:
  "50 < ev_start_date example_event \<and> ev_end_date example_event < 250
   \<and> fst (paystack_initialize ''u1'' 50 ''p2'' PaystackThrew example_request example_db)
       = Error_json 400 ''Voting period has ended or not started''
   \<and> fst (paystack_initialize ''u1'' 250 ''p2'' PaystackThrew example_request example_db)
       = Error_json 400 ''Voting period has ended or not started''"
  by code_simp

text \<open>
  C4, amended. A validated creation request is rejected, with the store unchanged (no
  payment row), when the contestant does not resolve (404), when the event is not active,
  when the clock is outside the voting window, or when the amount differs from the vote
  price; the reason is that of the first violated precondition in this order. The Stripe
  route gives each precondition a reason of its own; the Paystack route gives the two
  violations of the voting window one common reason.
\<close>

theorem eligibility_gate:
  assumes "valid_stripe_request req" and "valid_paystack_request req"
  shows "case select_contestant_with_event (req_contestant_id req) db of
     ContestantNotFound \<Rightarrow>
       stripe_create_intent userId now paymentId stripeResult req db
         = (Error_json 404 ''Contestant not found'', db)
       \<and> paystack_initialize userId now paymentId paystackResponse req db
         = (Error_json 404 ''Contestant not found'', db)
   | EventMissing \<Rightarrow>
       snd (stripe_create_intent userId now paymentId stripeResult req db) = db
       \<and> snd (paystack_initialize userId now paymentId paystackResponse req db) = db
   | ContestantFound contestant event \<Rightarrow>
       (ev_status event \<noteq> Active \<longrightarrow>
          stripe_create_intent userId now paymentId stripeResult req db
            = (Error_json 400 ''Event is not active'', db)
          \<and> paystack_initialize userId now paymentId paystackResponse req db
            = (Error_json 400 ''Event is not active'', db))
       \<and> (ev_status event = Active \<and> now < ev_start_date event \<longrightarrow>
          stripe_create_intent userId now paymentId stripeResult req db
            = (Error_json 400 ''Voting has not started yet'', db)
          \<and> paystack_initialize userId now paymentId paystackResponse req db
            = (Error_json 400 ''Voting period has ended or not started'', db))
       \<and> (ev_status event = Active \<and> ev_start_date event \<le> now \<and> ev_end_date event < now \<longrightarrow>
          stripe_create_intent userId now paymentId stripeResult req db
            = (Error_json 400 ''Voting has ended'', db)
          \<and> paystack_initialize userId now paymentId paystackResponse req db
            = (Error_json 400 ''Voting period has ended or not started'', db))
       \<and> (ev_status event = Active \<and> ev_start_date event \<le> now \<and> now \<le> ev_end_date event
            \<and> req_amount req \<noteq> ev_vote_price event \<longrightarrow>
          stripe_create_intent userId now paymentId stripeResult req db
            = (InvalidVoteAmount (ev_vote_price event) (req_amount req), db)
          \<and> paystack_initialize userId now paymentId paystackResponse req db
            = (InvalidVoteAmount (ev_vote_price event) (req_amount req), db))"
  using assms
  by (simp add: stripe_create_intent_def paystack_initialize_def
      split: contestant_lookup.splits)

lemma example_lookup:
  "select_contestant_with_event ''c1'' example_db
     = ContestantFound \<lparr>con_id = ''c1'', con_category_id = ''g1'', con_vote_count = 0\<rparr> example_event"
  by code_simp

theorem eligibility_gate_witness:
  "valid_stripe_request example_request \<and> valid_paystack_request example_request
   \<and> ev_status example_event = Active \<and> ev_start_date example_event \<le> 250
   \<and> ev_end_date example_event < 250
   \<and> stripe_create_intent ''u1'' 250 ''p2'' (StripeIntent ''pi_2'' ''secret'' ''{}'')
        example_request example_db = (Error_json 400 ''Voting has ended'', example_db)
   \<and> paystack_initialize ''u1'' 250 ''p2'' PaystackThrew example_request example_db
       = (Error_json 400 ''Voting period has ended or not started'', example_db)"
proof -
  have v1: "valid_stripe_request example_request" by code_simp
  have v2: "valid_paystack_request example_request" by code_simp
  have e: "ev_status example_event = Active \<and> ev_start_date example_event \<le> 250
    \<and> ev_end_date example_event < 250"
    by (simp add: example_event_def)
  have c: "req_contestant_id example_request = ''c1''"
    by (simp add: example_request_def)
  from eligibility_gate [OF v1 v2, where db = example_db and userId = "''u1''" and now = 250
      and paymentId = "''p2''" and stripeResult = "StripeIntent ''pi_2'' ''secret'' ''{}''"
      and paystackResponse = PaystackThrew] e v1 v2
  show ?thesis
    by (simp add: c example_lookup)
qed

section \<open>Existing votes\<close>

text \<open>
  C5, amended. When a vote already references the payment of a vote-creation request, the
  route leaves the store unchanged (no second vote, no counter incremented again) and
  answers with an error status; a request that passes every earlier check of the route is
  answered with status 400 and \<open>Vote already exists for this payment\<close>.
\<close>

theorem existing_vote_is_rejected:
  assumes "single (filter (\<lambda>v. vote_payment_id v = vr_payment_id req) (votes db)) = Some existingVote"
  shows "snd (create_vote voterId now req db) = db
    \<and> 400 \<le> status_code (fst (create_vote voterId now req db))
    \<and> (passes_vote_checks voterId now req db \<longrightarrow>
         create_vote voterId now req db
           = (Error_json 400 ''Vote already exists for this payment'', db))"
  using assms
  by (auto simp add: create_vote_def passes_vote_checks_def
      split: contestant_lookup.splits option.splits sum.splits)

lemma example_existing_vote:
  "single (filter (\<lambda>v. vote_payment_id v = vr_payment_id example_vote_request)
     (votes (handlePaymentSucceeded example_intent example_db)))
   = Some (vote_of_payment example_payment)"
  by code_simp

lemma example_passes_checks:
  "passes_vote_checks ''u1'' 150 example_vote_request
     (handlePaymentSucceeded example_intent example_db)"
  by code_simp

theorem existing_vote_is_rejected_witness:
  "single (filter (\<lambda>v. vote_payment_id v = vr_payment_id example_vote_request)
     (votes (handlePaymentSucceeded example_intent example_db)))
   = Some (vote_of_payment example_payment)
   \<and> passes_vote_checks ''u1'' 150 example_vote_request
       (handlePaymentSucceeded example_intent example_db)
   \<and> snd (create_vote ''u1'' 150 example_vote_request
       (handlePaymentSucceeded example_intent example_db))
       = handlePaymentSucceeded example_intent example_db"
  using existing_vote_is_rejected [OF example_existing_vote, of "''u1''" 150]
    example_existing_vote example_passes_checks
  by blast

text \<open>
  C5, as the specification states it, fails: after the webhook has committed the vote of
  the example payment, the vote-creation request for the same payment is answered with an
  error reply, not with the existing vote.
\<close>

theorem existing_vote_error_reply:
  "filter (\<lambda>v. vote_payment_id v = ''p1'') (votes (handlePaymentSucceeded example_intent example_db))
     = [vote_of_payment example_payment]
   \<and> create_vote ''u1'' 150 example_vote_request (handlePaymentSucceeded example_intent example_db)
     = (Error_json 400 ''Vote already exists for this payment'',
        handlePaymentSucceeded example_intent example_db)"
  by code_simp

section \<open>Commission rate changes\<close>

text \<open>
  C8, as the specification states it, fails: with the payments and the events of the store
  unchanged, raising the commission rate from 0.05 to 0.10 lowers the withdrawable balance
  of the organizer from 95 to 90.
\<close>

theorem rate_change_alters_withdrawable_balance:
  "payments (snd (update_platform_settings
       \<lparr>su_commission_rate = Some (1 / 10), su_stripe_enabled = None, su_paystack_enabled = None\<rparr>
       revenue_db)) = payments revenue_db
   \<and> events (snd (update_platform_settings
       \<lparr>su_commission_rate = Some (1 / 10), su_stripe_enabled = None, su_paystack_enabled = None\<rparr>
       revenue_db)) = events revenue_db
   \<and> withdrawableAmount ''o1'' revenue_db = 95
   \<and> withdrawableAmount ''o1'' (snd (update_platform_settings
       \<lparr>su_commission_rate = Some (1 / 10), su_stripe_enabled = None, su_paystack_enabled = None\<rparr>
       revenue_db)) = 90"
  by code_simp

lemma update_settings_tables:
  "payments (snd (update_platform_settings upd db)) = payments db
   \<and> events (snd (update_platform_settings upd db)) = events db
   \<and> withdrawals (snd (update_platform_settings upd db)) = withdrawals db"
  by (simp add: update_platform_settings_def Let_def split: option.splits)

lemma update_payments_keeps_split:
  "update_payments patch sel db = Inr db' \<Longrightarrow>
     map pay_platform_fee (payments db') = map pay_platform_fee (payments db)
     \<and> map pay_organizer_earnings (payments db') = map pay_organizer_earnings (payments db)
     \<and> map pay_amount (payments db') = map pay_amount (payments db)"
  by (auto simp add: update_payments_def patch_row_def split: option.splits)

text \<open>
  C8, amended. A change of the commission rate leaves every payment row as it is, so the
  stored \<open>platform_fee\<close> and \<open>organizer_earnings\<close> and the earnings summary over any
  selection of payments are unchanged, and no update of the payments table writes these two
  columns; the withdrawable balance is computed from the total revenue with the commission
  rate read at the time of the computation.
\<close>

theorem stored_split_frozen:
  "payments (snd (update_platform_settings upd db)) = payments db
   \<and> totalEarnings (filter sel (payments (snd (update_platform_settings upd db))))
       = totalEarnings (filter sel (payments db))
   \<and> totalPlatformFees (filter sel (payments (snd (update_platform_settings upd db))))
       = totalPlatformFees (filter sel (payments db))
   \<and> (update_payments patch sel' db = Inr db' \<longrightarrow>
        map pay_platform_fee (payments db') = map pay_platform_fee (payments db)
        \<and> map pay_organizer_earnings (payments db') = map pay_organizer_earnings (payments db))
   \<and> withdrawableAmount organizerId (snd (update_platform_settings upd db))
       = totalRevenue organizerId db
           * (1 - commissionRate (snd (update_platform_settings upd db)))
         - totalWithdrawnOrPending organizerId db"
  using update_settings_tables [of upd db] update_payments_keeps_split [of patch sel' db db']
  by (simp add: withdrawableAmount_def availableEarnings_def totalRevenue_def
      totalWithdrawnOrPending_def)

theorem stored_split_frozen_witness:
  "update_payments (status_only ''failed'') (\<lambda>p. pay_id p = ''p1'') revenue_db
     = Inr (revenue_db\<lparr>payments := [example_payment\<lparr>pay_status := Failed\<rparr>]\<rparr>)
   \<and> map pay_platform_fee (payments (revenue_db\<lparr>payments := [example_payment\<lparr>pay_status := Failed\<rparr>]\<rparr>))
       = map pay_platform_fee (payments revenue_db)
   \<and> payments (snd (update_platform_settings
        \<lparr>su_commission_rate = Some (1 / 10), su_stripe_enabled = None,
         su_paystack_enabled = None\<rparr> revenue_db)) = payments revenue_db"
proof -
  have u: "update_payments (status_only ''failed'') (\<lambda>p. pay_id p = ''p1'') revenue_db
     = Inr (revenue_db\<lparr>payments := [example_payment\<lparr>pay_status := Failed\<rparr>]\<rparr>)"
    by code_simp
  from stored_split_frozen [where db = revenue_db and patch = "status_only ''failed''"
      and sel' = "\<lambda>p. pay_id p = ''p1''"
      and db' = "revenue_db\<lparr>payments := [example_payment\<lparr>pay_status := Failed\<rparr>]\<rparr>"
      and upd = "\<lparr>su_commission_rate = Some (1 / 10), su_stripe_enabled = None,
         su_paystack_enabled = None\<rparr>"] u
  show ?thesis by blast
qed


section \<open>Status transitions\<close>



















text \<open>The writers are the handlers: a writer run on its own is its handler.\<close>

lemma writer_alone: "run_writer 3 (Begin op, db) = (Stopped, apply_op op db)"
proof (cases op)
  case (StripeEvent event)
  then show ?thesis
    by (simp add: numeral_3_eq_3 commit_step_def stripe_dispatch_def handlePaymentSucceeded_def
        handleChargeDispute_def split: option.splits sum.splits)
next
  case (PaystackEvent verify event)
  then show ?thesis
    by (simp add: numeral_3_eq_3 commit_step_def paystack_dispatch_def handleChargeSuccess_def
        split: option.splits sum.splits)
next
  case (Verify userId paymentId stripeStatus paystackResponse)
  then show ?thesis
    by (simp add: numeral_3_eq_3 verify_payment_def Let_def split: option.splits)
next
  case (Cancel userId paymentId)
  then show ?thesis
    by (simp add: numeral_3_eq_3 cancel_payment_def ignore_error_def
        split: option.splits sum.splits)
qed




text \<open>
  The test of the verify route and of the cancel route is made at the read, not at the
  write. A verify call that has read the pending example payment, and whose provider
  answers \<open>succeeded\<close>, writes \<open>completed\<close> after \<open>payment_intent.payment_failed\<close> has
  marked the payment failed; a cancel call that has read the pending payment writes
  \<open>failed\<close> after \<open>payment_intent.succeeded\<close> has completed it and inserted its vote.
\<close>

lemma verify_write_after_failure:
  "map pay_status (payments (snd (interleave_writers [0, 1]
      (map Begin
         [Verify ''u1'' ''p1'' (Some ''succeeded'') None,
          StripeEvent
            \<lparr>se_type = ''payment_intent.payment_failed'', se_object = example_intent\<rparr>],
       example_db)))) = [Failed]
   \<and> map pay_status (payments (snd (interleave_writers [0, 1, 0]
      (map Begin
         [Verify ''u1'' ''p1'' (Some ''succeeded'') None,
          StripeEvent
            \<lparr>se_type = ''payment_intent.payment_failed'', se_object = example_intent\<rparr>],
       example_db)))) = [Completed]"
  by code_simp

lemma cancel_write_after_success:
  "map pay_status (payments (snd (interleave_writers [0, 1, 1, 1]
      (map Begin
         [Cancel ''u1'' ''p1'',
          StripeEvent \<lparr>se_type = ''payment_intent.succeeded'', se_object = example_intent\<rparr>],
       example_db)))) = [Completed]
   \<and> map pay_status (payments (snd (interleave_writers [0, 1, 1, 1, 0]
      (map Begin
         [Cancel ''u1'' ''p1'',
          StripeEvent \<lparr>se_type = ''payment_intent.succeeded'', se_object = example_intent\<rparr>],
       example_db)))) = [Failed]
   \<and> map vote_payment_id (votes (snd (interleave_writers [0, 1, 1, 1, 0]
      (map Begin
         [Cancel ''u1'' ''p1'',
          StripeEvent \<lparr>se_type = ''payment_intent.succeeded'', se_object = example_intent\<rparr>],
       example_db)))) = [''p1'']"
  by code_simp


section \<open>Idempotent commit\<close>




lemma counted_contestants:
  "counted pid db0 d \<Longrightarrow> list_all2 con_related (contestants db0) (contestants d)"
  by (auto simp add: counted_def update_vote_counts_def list_all2_map2 con_related_def
      intro!: list_all2_refl)

lemma counted_events:
  "counted pid db0 d \<Longrightarrow> list_all2 ev_related (events db0) (events d)"
  by (auto simp add: counted_def update_vote_counts_def list_all2_map2 ev_related_def
      intro!: list_all2_refl)

lemma related_list_ex:
  "list_all2 R xs ys \<Longrightarrow> (\<And>x y. R x y \<Longrightarrow> Q x = Q' y) \<Longrightarrow> list_ex Q xs = list_ex Q' ys"
  by (induction rule: list_all2_induct) auto

lemma counted_event_ids:
  "counted pid db0 d \<Longrightarrow>
     list_ex (\<lambda>e. ev_id e = x) (events d) = list_ex (\<lambda>e. ev_id e = x) (events db0)"
  using related_list_ex [OF counted_events, of pid db0 d "\<lambda>e. ev_id e = x" "\<lambda>e. ev_id e = x"]
  by (simp add: ev_related_def)

lemma counted_contestant_ids:
  "counted pid db0 d \<Longrightarrow>
     list_ex (\<lambda>c. con_id c = x) (contestants d) = list_ex (\<lambda>c. con_id c = x) (contestants db0)"
  using related_list_ex [OF counted_contestants, of pid db0 d "\<lambda>c. con_id c = x"
      "\<lambda>c. con_id c = x"]
  by (simp add: con_related_def)



lemma lookup_event_known:
  assumes "counted pid db0 d"
    and "select_contestant_with_event cid d = ContestantFound c e"
  shows "list_ex (\<lambda>e'. ev_id e' = ev_id e) (events db0)"
proof -
  from assms(2) have
    "\<exists>g :: category_row.
       single (filter (\<lambda>e. ev_id e = cat_event_id g) (events d)) = Some e"
    by (auto simp add: select_contestant_with_event_def split: option.splits)
  then obtain g :: category_row where
    "single (filter (\<lambda>e. ev_id e = cat_event_id g) (events d)) = Some e" ..
  from single_filter_mem [OF this] have "list_ex (\<lambda>e'. ev_id e' = ev_id e) (events d)"
    by (auto simp add: list_ex_iff)
  with counted_event_ids [OF assms(1)] show ?thesis by simp
qed























lemma example_run_votes:
  "votes_for ''p1'' (snd (interleave example_schedule (map Start example_tasks, completed_db)))
    = [vote_of_payment example_payment]"
  by code_simp

text \<open>
  The processes are the handlers: a process run on its own is its handler.
\<close>

lemma handlePaymentSucceeded_steps:
  "run_steps 3 (Start (StripeSucceeded paymentIntent), db)
     = (Finished, handlePaymentSucceeded paymentIntent db)"
  by (simp add: numeral_3_eq_3 handlePaymentSucceeded_def split: option.splits sum.splits)

lemma handleChargeSuccess_steps:
  "run_steps 3 (Start (PaystackSuccess (verify (the (pd_reference charge))) charge), db)
     = (Finished, handleChargeSuccess verify charge db)"
  by (simp add: numeral_3_eq_3 handleChargeSuccess_def split: option.splits sum.splits)

lemma create_vote_steps:
  "run_steps 4 (Start (VoteRequest voterId now req), db)
     = (Finished, snd (create_vote voterId now req db))"
  by (simp add: eval_nat_numeral create_vote_def
      split: option.splits sum.splits contestant_lookup.splits)



end
